theory Spec2Isabelle
  imports Complex_Main
begin

section \<open>The quantum cryptography demo (src/app.js)\<close>

text \<open>
  The development embeds the part of class \<open>QuantumCryptoDemo\<close> that carries the
  anomaly score, the attack flag, the alert log and the key exchange: the table
  \<open>this.data\<close>, the object \<open>this.currentState\<close>, and the handlers
  \<open>updateQBERChart\<close>, \<open>triggerAnomaly\<close>, \<open>resetMonitoring\<close>,
  \<open>resetCompleteDemo\<close>, \<open>startAIMonitoring\<close>, \<open>initializeQBERChart\<close>,
  \<open>simulateEavesdropping\<close>, \<open>startE91Protocol\<close>, \<open>updateAIDisplay\<close>,
  \<open>updateE91Display\<close>, \<open>addSecurityAlert\<close>, \<open>generateQuantumKey\<close> and the
  click handler of the tabs. The RSA and Shor demonstrations, the secure-communication
  animation and the modal share no state with these and are left out.

  Conventions of the embedding.
  \<^item> A JavaScript Number is the \<open>real\<close> that the double denotes. The arithmetic of
    the model is exact: the rounding of IEEE doubles is not represented. The error-rate
    sample, whose digits the program prints, is therefore not computed in the model: it
    is an argument of \<open>updateQBERChart\<close>, the Number that the source has computed.
  \<^item> \<open>Math.random()\<close> and the clock are inputs: every handler takes the values it draws
    as arguments. Nothing restricts a draw to the interval from 0 to 1; where a statement
    needs that, it says so.
  \<^item> The page is part of the state: the fields of the record \<open>demo\<close> after
    \<open>currentTab\<close> hold what the handlers write into the elements they look up. The HTML
    of the page is not among the sources, so every \<open>getElementById\<close> of the modelled
    handlers is taken to find its element, as \<open>resetMonitoring\<close>,
    \<open>updateAIDisplay\<close>, \<open>simulateEavesdropping\<close> and \<open>startE91Protocol\<close>
    themselves assume when they use the elements unchecked. The defensive checks
    (\<open>if (!alertsContainer) return\<close>, \<open>if (!ctx) return\<close>, \<open>if (element)\<close>,
    \<open>if (alertsContainer)\<close>) are for a page without the element and are noted where
    they stand.
  \<^item> \<open>showAlert\<close> only shows a toast that removes itself after four seconds; no handler
    reads it, and it is left out. Timers are not state either: a tick of an interval is a
    call of its callback, and the model allows a tick at any moment.
\<close>

subsection \<open>Numbers as text\<close>

definition digit_char :: "nat \<Rightarrow> char" where
  "digit_char d = ''0123456789'' ! (d mod 10)"

fun digits :: "nat \<Rightarrow> string" where
  "digits n = (if n < 10 then [digit_char n] else digits (n div 10) @ [digit_char (n mod 10)])"

declare digits.simps [simp del]

definition number_text :: "int \<Rightarrow> string" where
  \<comment> \<open>String(i) for an integer-valued Number below 10^21 in size.\<close>
  "number_text i = (if i < 0 then ''-'' @ digits (nat (- i)) else digits (nat i))"

definition toFixed :: "nat \<Rightarrow> real \<Rightarrow> string" where
  \<comment> \<open>Number.prototype.toFixed(f), ECMAScript 21.1.3.3, for a finite x below 10^21 in
      size (beyond that JavaScript switches to exponent notation; the numbers this program
      formats are error rates below 1 and scores of at most 3). The sign is split off
      first, n is the integer nearest to x * 10^f (the larger one on a tie), its digits
      are padded with zeros to f + 1 places and the point goes before the last f.\<close>
  "toFixed f x =
     (let s = (if x < 0 then ''-'' else '''');
          n = nat \<lfloor>\<bar>x\<bar> * 10 ^ f + 1 / 2\<rfloor>;
          m = digits n;
          m = replicate (f + 1 - length m) CHR ''0'' @ m
      in if f = 0 then s @ m
         else s @ take (length m - f) m @ ''.'' @ drop (length m - f) m)"

definition digit_value :: "char \<Rightarrow> nat" where
  "digit_value c = of_char c - 48"

definition digits_value :: "string \<Rightarrow> nat" where
  \<comment> \<open>The number a string of decimal digits denotes; used only to say what a rendered
      number reads back as.\<close>
  "digits_value cs = foldl (\<lambda>a c. 10 * a + digit_value c) 0 cs"

subsection \<open>The table \<open>this.data\<close>\<close>

record operation =
  num_pairs :: nat
  matching_pairs :: nat
  shared_key_length :: nat
  qber :: real
  eavesdrop_detected :: bool
  threat_level :: string

definition normal_operation :: operation where
  "normal_operation =
     \<lparr>num_pairs = 100, matching_pairs = 19, shared_key_length = 19, qber = 2 / 100,
      eavesdrop_detected = False, threat_level = ''LOW''\<rparr>"

definition under_attack :: operation where
  \<comment> \<open>The source's entry also has \<open>attack_patterns\<close> and \<open>attack_probability\<close>, which
      no code reads.\<close>
  "under_attack =
     \<lparr>num_pairs = 100, matching_pairs = 16, shared_key_length = 16, qber = 28 / 100,
      eavesdrop_detected = True, threat_level = ''HIGH''\<rparr>"

definition baseline_qber :: real where
  "baseline_qber = 2 / 100"

definition alert_threshold :: real where
  "alert_threshold = 11 / 100"

definition anomaly_scores :: "real list" where
  "anomaly_scores = [1 / 10, 2 / 10, 8 / 10, 25 / 10]"

definition threat_levels :: "string list" where
  "threat_levels = [''LOW'', ''LOW'', ''MEDIUM'', ''HIGH'']"

definition recommendations :: "string list" where
  "recommendations =
     [''Continue key exchange - Normal operation'',
      ''Continue key exchange - Normal operation'',
      ''Monitor closely - Elevated error rate detected'',
      ''Abort key exchange - Possible eavesdropping detected'']"

subsection \<open>The state: \<open>this.currentState\<close> and the page\<close>

record chart =
  chartLabels :: "int list"
  qberData :: "real list"
  thresholdData :: "real list"

record alert =
  alertClass :: string
  alertTime :: string
  alertMessage :: string

record demo =
  isUnderAttack :: bool
  qberChart :: "chart option"
  monitoringActive :: bool
  e91Active :: bool
  anomalyScore :: real
  currentTab :: string
  anomalyScoreText :: string
  threatFillLeft :: real
  aiRecommendation :: string
  securityAlerts :: "alert list"
  keyProgressWidth :: real
  quantumKey :: string
  entangledPairs :: string
  matchingPairs :: string
  qberValue :: string
  qberValueClass :: string
  threatLevel :: string
  threatLevelClass :: string

text \<open>
  \<open>securityAlerts\<close> is the list of children of the element \<open>security-alerts\<close>, first
  child first. \<open>threatFillLeft\<close> and \<open>keyProgressWidth\<close> are the numbers of the
  percentages written into \<open>style.left\<close> and \<open>style.width\<close>. The other page fields
  are the \<open>textContent\<close> and \<open>className\<close> of the elements of the same names.
\<close>

subsection \<open>The displays\<close>

definition recommendationIndex :: "real \<Rightarrow> nat" where
  "recommendationIndex score =
     (if score > 2 then 3 else if score > 1 then 2 else if score > 1 / 2 then 1 else 0)"

definition recommendationFor :: "real \<Rightarrow> string" where
  "recommendationFor score = recommendations ! recommendationIndex score"

definition updateAIDisplay :: "demo \<Rightarrow> demo" where
  "updateAIDisplay st =
     st\<lparr>anomalyScoreText := toFixed 1 (anomalyScore st),
        threatFillLeft := min 100 (anomalyScore st / 3 * 100),
        aiRecommendation := recommendationFor (anomalyScore st)\<rparr>"

definition updateE91Display :: "demo \<Rightarrow> demo" where
  \<comment> \<open>The source writes each field only \<open>if (element)\<close>.\<close>
  "updateE91Display st =
     (let operation = (if isUnderAttack st then under_attack else normal_operation)
      in st\<lparr>entangledPairs := number_text (int (num_pairs operation)),
            matchingPairs := number_text (int (matching_pairs operation)),
            qberValue := toFixed 2 (qber operation),
            qberValueClass := (if qber operation > 11 / 100 then ''qber-critical'' else ''qber-normal''),
            threatLevel := threat_level operation,
            threatLevelClass :=
              ''status status--'' @ (if threat_level operation = ''LOW'' then ''success'' else ''error'')\<rparr>)"

subsection \<open>The alert log\<close>

function keepLastAlerts :: "alert list \<Rightarrow> alert list" where
  \<comment> \<open>\<open>while (children.length > 5) removeChild(lastChild)\<close>\<close>
  "keepLastAlerts children =
     (if length children > 5 then keepLastAlerts (butlast children) else children)"
  by pat_completeness auto
termination
  by (relation "measure length") auto

declare keepLastAlerts.simps [simp del]

definition addSecurityAlert :: "string \<Rightarrow> string \<Rightarrow> string \<Rightarrow> demo \<Rightarrow> demo" where
  \<comment> \<open>\<open>timestamp\<close> is what \<open>new Date().toLocaleTimeString()\<close> returns at the call. The
      source returns at once \<open>if (!alertsContainer)\<close>.\<close>
  "addSecurityAlert timestamp message type st =
     st\<lparr>securityAlerts :=
          keepLastAlerts
            (\<lparr>alertClass = ''alert alert-'' @ type, alertTime = timestamp, alertMessage = message\<rparr>
             # securityAlerts st)\<rparr>"

subsection \<open>The error-rate chart and the anomaly monitor\<close>

definition initializeQBERChart :: "(nat \<Rightarrow> real) \<Rightarrow> demo \<Rightarrow> demo" where
  \<comment> \<open>\<open>rnd i\<close> is the draw for the i-th of the twenty points. The source returns at once
      \<open>if (!ctx)\<close>, on a page without the canvas.\<close>
  "initializeQBERChart rnd st =
     st\<lparr>qberChart :=
          Some \<lparr>chartLabels = map (\<lambda>i. int i + 1) [0..<20],
                qberData = map (\<lambda>i. 2 / 100 + rnd i * (1 / 100)) [0..<20],
                thresholdData = replicate 20 (11 / 100)\<rparr>\<rparr>"

definition selectTab :: "string \<Rightarrow> (nat \<Rightarrow> real) \<Rightarrow> demo \<Rightarrow> demo" where
  \<comment> \<open>The click handler of a tab button (setupTabNavigation), without the class changes of
      the buttons and panels.\<close>
  "selectTab targetTab rnd st =
     (let st1 = st\<lparr>currentTab := targetTab\<rparr>
      in if targetTab = ''ai-security'' \<and> qberChart st1 = None
         then initializeQBERChart rnd st1 else st1)"

definition startAIMonitoring :: "string \<Rightarrow> demo \<Rightarrow> demo" where
  \<comment> \<open>With a chart present the source also starts the interval that calls updateQBERChart
      every two seconds.\<close>
  "startAIMonitoring timestamp st =
     addSecurityAlert timestamp ''AI monitoring system activated'' ''success''
       (st\<lparr>monitoringActive := True\<rparr>)"

definition pushPoint :: "real \<Rightarrow> chart \<Rightarrow> chart" where
  \<comment> \<open>push the point and its label, then keep only the last 20 points\<close>
  "pushPoint v c =
     (let d = qberData c @ [v];
          l = chartLabels c @ [int (length (chartLabels c)) + 1]
      in if length d > 20 then c\<lparr>chartLabels := tl l, qberData := tl d\<rparr>
         else c\<lparr>chartLabels := l, qberData := d\<rparr>)"

definition updateQBERChart :: "real \<Rightarrow> string \<Rightarrow> demo \<Rightarrow> demo" where
  \<comment> \<open>The first two cases are the source's
      \<open>if (!this.currentState.qberChart || !this.currentState.monitoringActive) return\<close>.
      \<open>newValue\<close> is the Number that the source's variable of this name holds after
      lines 504 to 509.\<close>
  "updateQBERChart newValue timestamp st =
     (case qberChart st of
        None \<Rightarrow> st
      | Some c \<Rightarrow>
          if monitoringActive st then
            (let st1 = st\<lparr>qberChart := Some (pushPoint newValue c)\<rparr>;
                 st2 =
                   (if newValue > 11 / 100 then
                      addSecurityAlert timestamp
                        (''Elevated QBER detected: '' @ toFixed 3 newValue) ''warning''
                        (st1\<lparr>anomalyScore := min 3 (anomalyScore st1 + 3 / 10)\<rparr>)
                    else st1\<lparr>anomalyScore := max (1 / 10) (anomalyScore st1 - 1 / 10)\<rparr>)
             in updateAIDisplay st2)
          else st)"

text \<open>
  The source computes the sample in doubles, as \<open>0.15 + Math.random() * 0.15\<close> when
  \<open>isUnderAttack\<close> is set and as \<open>0.02 + Math.random() * 0.02\<close> otherwise, so that a
  sample of an attacked instance lies between 0.15 and 0.30 and any other between 0.02
  and 0.04 (up to the rounding of the last bit). The model takes the result as it is: it
  pushes, compares and prints the Number and does no arithmetic on it. It admits every
  real as a sample, also those that no draw gives.
\<close>

definition triggerAnomaly :: "string \<Rightarrow> demo \<Rightarrow> demo" where
  "triggerAnomaly timestamp st =
     addSecurityAlert timestamp ''CRITICAL: Anomaly detected - possible eavesdropping attempt!''
       ''error''
       (updateAIDisplay (st\<lparr>anomalyScore := 25 / 10, isUnderAttack := True\<rparr>))"

definition resetMonitoring :: "(nat \<Rightarrow> real) \<Rightarrow> demo \<Rightarrow> demo" where
  \<comment> \<open>\<open>rnd\<close> are the draws of the chart that replaces the destroyed one. The source also
      clears the monitoring interval.\<close>
  "resetMonitoring rnd st =
     (let st1 = st\<lparr>monitoringActive := False, isUnderAttack := False, anomalyScore := 1 / 10\<rparr>;
          st2 = (case qberChart st1 of
                   None \<Rightarrow> st1
                 | Some c \<Rightarrow> initializeQBERChart rnd (st1\<lparr>qberChart := None\<rparr>));
          st3 = st2\<lparr>securityAlerts := []\<rparr>
      in updateE91Display (updateAIDisplay st3))"

subsection \<open>The key exchange\<close>

definition simulateEavesdropping :: "demo \<Rightarrow> demo" where
  "simulateEavesdropping st =
     (let st1 = st\<lparr>isUnderAttack := True\<rparr>;
          st2 = st1\<lparr>qberValue := toFixed 2 (qber under_attack),
                    qberValueClass := ''qber-critical'',
                    threatLevel := ''HIGH'',
                    threatLevelClass := ''status status--error'',
                    matchingPairs := number_text (int (matching_pairs under_attack))\<rparr>
      in updateAIDisplay (st2\<lparr>anomalyScore := 25 / 10\<rparr>))"

definition generateQuantumKey :: "(nat \<Rightarrow> real) \<Rightarrow> nat \<Rightarrow> string" where
  \<comment> \<open>\<open>Array.from({length}, () => Math.floor(Math.random() * 2)).join('')\<close>; \<open>rnd i\<close> is
      the draw for position i.\<close>
  "generateQuantumKey rnd len = concat (map (\<lambda>i. number_text \<lfloor>rnd i * 2\<rfloor>) [0..<len])"

record e91Draws =
  progressDraw :: real
  coinDraw :: real
  bitDraw :: real

text \<open>
  The draws of one tick of the key-exchange interval, in the order the source takes them.
  The third is taken only when the second is above one half; a tick whose coin fails
  ignores its \<open>bitDraw\<close>.
\<close>

fun e91Interval :: "e91Draws list \<Rightarrow> (nat \<Rightarrow> real) \<Rightarrow> real \<Rightarrow> string \<Rightarrow> demo \<Rightarrow> bool \<times> demo" where
  "e91Interval [] rnd progress generatedKey st = (False, st)"
| "e91Interval (t # ticks) rnd progress generatedKey st =
     (let progress = progress + (progressDraw t * 15 + 5);
          st1 = st\<lparr>keyProgressWidth := min progress 100\<rparr>;
          generatedKey =
            (if coinDraw t > 1 / 2 then generatedKey @ number_text \<lfloor>bitDraw t * 2\<rfloor>
             else generatedKey);
          st2 = st1\<lparr>quantumKey := (if generatedKey = [] then ''Generating...'' else generatedKey)\<rparr>
      in if progress \<ge> 100 then
           (True,
            st2\<lparr>quantumKey := generateQuantumKey rnd (shared_key_length normal_operation)\<rparr>)
         else e91Interval ticks rnd progress generatedKey st2)"

text \<open>
  \<open>e91Interval\<close> is the callback of \<open>setInterval\<close> in \<open>startE91Protocol\<close>, run once for
  each element of \<open>ticks\<close>, with the closure variables \<open>progress\<close> and
  \<open>generatedKey\<close> as arguments. The first component of the result tells whether the
  callback reached \<open>clearInterval\<close>, that is, whether the exchange completed within the
  given ticks; \<open>rnd\<close> are the draws of the final key. The interval reads nothing that
  another handler writes, and it writes only the two elements \<open>key-progress\<close> and
  \<open>quantum-key\<close>, which only \<open>resetCompleteDemo\<close> writes besides; the model runs the
  ticks of one exchange in one piece.
\<close>

definition startE91Protocol :: "e91Draws list \<Rightarrow> (nat \<Rightarrow> real) \<Rightarrow> demo \<Rightarrow> bool \<times> demo" where
  "startE91Protocol ticks rnd st = e91Interval ticks rnd 0 [] (st\<lparr>e91Active := True\<rparr>)"

datatype error = InvalidArgument


definition resetCompleteDemo :: "(nat \<Rightarrow> real) \<Rightarrow> demo \<Rightarrow> demo" where
  \<comment> \<open>The handler of the button \<open>reset-demo\<close>, without the RSA display, the two attack
      status texts and the modal, which are outside the modelled part of the page. It
      clears the alerts \<open>if (alertsContainer)\<close>, and calls \<open>resetMonitoring\<close> only when
      a chart exists.\<close>
  "resetCompleteDemo rnd st =
     (let st1 = st\<lparr>isUnderAttack := False, anomalyScore := 1 / 10, e91Active := False\<rparr>;
          st2 = updateAIDisplay (updateE91Display st1);
          st3 = st2\<lparr>quantumKey := ''-'', keyProgressWidth := 0\<rparr>;
          st4 = st3\<lparr>securityAlerts := []\<rparr>
      in case qberChart st4 of
           None \<Rightarrow> st4
         | Some c \<Rightarrow> resetMonitoring rnd st4)"

subsection \<open>A new instance, and sequences of events\<close>

definition newDemo :: "demo \<Rightarrow> demo" where
  \<comment> \<open>The constructor on a page whose elements hold what the page fields of \<open>page\<close> say:
      it sets \<open>this.currentState\<close>, and \<open>setupE91Protocol\<close> calls \<open>updateE91Display\<close>.\<close>
  "newDemo page =
     updateE91Display
       (page\<lparr>isUnderAttack := False, qberChart := None, monitoringActive := False,
             e91Active := False, anomalyScore := 1 / 10, currentTab := ''rsa-vulnerability''\<rparr>)"

definition blankPage :: demo where
  "blankPage =
     \<lparr>isUnderAttack = False, qberChart = None, monitoringActive = False, e91Active = False,
      anomalyScore = 1 / 10, currentTab = ''rsa-vulnerability'', anomalyScoreText = [],
      threatFillLeft = 0, aiRecommendation = [], securityAlerts = [], keyProgressWidth = 0,
      quantumKey = [], entangledPairs = [], matchingPairs = [], qberValue = [],
      qberValueClass = [], threatLevel = [], threatLevelClass = []\<rparr>"

datatype event =
    SelectTab string "nat \<Rightarrow> real"
  | StartAIMonitoring string
  | QBERTick real string
  | TriggerAnomaly string
  | SimulateEavesdropping
  | StartE91Protocol "e91Draws list" "nat \<Rightarrow> real"
  | ResetMonitoring "nat \<Rightarrow> real"
  | ResetCompleteDemo "nat \<Rightarrow> real"

fun handle :: "event \<Rightarrow> demo \<Rightarrow> demo" where
  "handle (SelectTab targetTab rnd) st = selectTab targetTab rnd st"
| "handle (StartAIMonitoring timestamp) st = startAIMonitoring timestamp st"
| "handle (QBERTick newValue timestamp) st = updateQBERChart newValue timestamp st"
| "handle (TriggerAnomaly timestamp) st = triggerAnomaly timestamp st"
| "handle SimulateEavesdropping st = simulateEavesdropping st"
| "handle (StartE91Protocol ticks rnd) st = snd (startE91Protocol ticks rnd st)"
| "handle (ResetMonitoring rnd) st = resetMonitoring rnd st"
| "handle (ResetCompleteDemo rnd) st = resetCompleteDemo rnd st"

definition run :: "event list \<Rightarrow> demo \<Rightarrow> demo" where
  "run events st = foldl (\<lambda>s e. handle e s) st events"

text \<open>
  An event is one call of a handler together with the values it draws (for a tick of the
  monitor, the sample it has computed from its draw). These are all the
  places of the class that write \<open>anomalyScore\<close>, \<open>isUnderAttack\<close>,
  \<open>monitoringActive\<close>, \<open>qberChart\<close> or the alert list. \<open>run\<close> lets the events
  happen one after the other, as the single thread of the page does.
\<close>

subsection \<open>Concrete states and draws\<close>

definition halfDraws :: "nat \<Rightarrow> real" where
  "halfDraws i = 1 / 2"

definition alternatingDraws :: "nat \<Rightarrow> real" where
  "alternatingDraws i = (if even i then 0 else 3 / 4)"

definition steadyTicks :: "e91Draws list" where
  "steadyTicks = replicate 20 \<lparr>progressDraw = 1 / 2, coinDraw = 3 / 4, bitDraw = 3 / 4\<rparr>"

definition attackSample :: real where
  \<comment> \<open>0.26249999999999996, the double that \<open>0.15 + 0.75 * 0.15\<close> gives: the sample of
      an attacked instance at the draw 0.75\<close>
  "attackSample = 1182194902184755 / 2 ^ 52"

definition calmSample :: real where
  \<comment> \<open>the double 0.03, which \<open>0.02 + 0.5 * 0.02\<close> gives: the sample of an instance
      not under attack at the draw 0.5\<close>
  "calmSample = 1080863910568919 / 2 ^ 55"

definition monitoredDemo :: demo where
  \<comment> \<open>a new instance after opening the monitoring tab and starting the monitor\<close>
  "monitoredDemo =
     startAIMonitoring ''09:00:00'' (selectTab ''ai-security'' halfDraws (newDemo blankPage))"

definition attackedDemo :: demo where
  \<comment> \<open>the same with the anomaly triggered\<close>
  "attackedDemo = triggerAnomaly ''09:00:05'' monitoredDemo"

definition idleAttackedDemo :: demo where
  \<comment> \<open>The monitor started a second time, then reset, then the anomaly triggered. In the
      source the second start overwrites \<open>this.monitoringInterval\<close> and the reset clears
      that one only, so the first interval still ticks after the reset.\<close>
  "idleAttackedDemo =
     triggerAnomaly ''09:00:05''
       (resetMonitoring halfDraws (startAIMonitoring ''09:00:01'' monitoredDemo))"

definition eavesdroppedDemo :: demo where
  \<comment> \<open>a new instance after the eavesdropping simulation\<close>
  "eavesdroppedDemo = simulateEavesdropping (newDemo blankPage)"

section \<open>Properties\<close>

subsection \<open>What each handler does to the fields\<close>

lemma keepLastAlerts_take: "keepLastAlerts children = take 5 children"
proof (induction children rule: keepLastAlerts.induct)
  case (1 children)
  show ?case
  proof (cases "length children > 5")
    case True
    then have "keepLastAlerts children = take 5 (butlast children)"
      using "1.IH" by (simp add: keepLastAlerts.simps [of children])
    also have "\<dots> = take (min 5 (length children - 1)) children"
      by (simp add: butlast_conv_take)
    also have "min 5 (length children - 1) = 5"
      using True by arith
    finally show ?thesis .
  next
    case False
    then show ?thesis by (simp add: keepLastAlerts.simps [of children])
  qed
qed

lemma securityAlerts_addSecurityAlert:
  "securityAlerts (addSecurityAlert ts msg ty st) =
     take 5 (\<lparr>alertClass = ''alert alert-'' @ ty, alertTime = ts, alertMessage = msg\<rparr> # securityAlerts st)"
  by (simp add: addSecurityAlert_def keepLastAlerts_take)

lemma addSecurityAlert_fields [simp]:
  "anomalyScore (addSecurityAlert ts msg ty st) = anomalyScore st"
  "isUnderAttack (addSecurityAlert ts msg ty st) = isUnderAttack st"
  "monitoringActive (addSecurityAlert ts msg ty st) = monitoringActive st"
  "qberChart (addSecurityAlert ts msg ty st) = qberChart st"
  by (simp_all add: addSecurityAlert_def)

lemma updateAIDisplay_fields [simp]:
  "anomalyScore (updateAIDisplay st) = anomalyScore st"
  "isUnderAttack (updateAIDisplay st) = isUnderAttack st"
  "monitoringActive (updateAIDisplay st) = monitoringActive st"
  "qberChart (updateAIDisplay st) = qberChart st"
  "securityAlerts (updateAIDisplay st) = securityAlerts st"
  "aiRecommendation (updateAIDisplay st) = recommendationFor (anomalyScore st)"
  by (simp_all add: updateAIDisplay_def)

lemma updateE91Display_fields [simp]:
  "anomalyScore (updateE91Display st) = anomalyScore st"
  "isUnderAttack (updateE91Display st) = isUnderAttack st"
  "monitoringActive (updateE91Display st) = monitoringActive st"
  "qberChart (updateE91Display st) = qberChart st"
  "securityAlerts (updateE91Display st) = securityAlerts st"
  by (simp_all add: updateE91Display_def Let_def)

lemma initializeQBERChart_fields [simp]:
  "anomalyScore (initializeQBERChart rnd st) = anomalyScore st"
  "isUnderAttack (initializeQBERChart rnd st) = isUnderAttack st"
  "monitoringActive (initializeQBERChart rnd st) = monitoringActive st"
  "securityAlerts (initializeQBERChart rnd st) = securityAlerts st"
  by (simp_all add: initializeQBERChart_def)

lemma e91Interval_fields:
  "anomalyScore (snd (e91Interval ticks rnd p k st)) = anomalyScore st \<and>
   isUnderAttack (snd (e91Interval ticks rnd p k st)) = isUnderAttack st \<and>
   monitoringActive (snd (e91Interval ticks rnd p k st)) = monitoringActive st \<and>
   qberChart (snd (e91Interval ticks rnd p k st)) = qberChart st \<and>
   securityAlerts (snd (e91Interval ticks rnd p k st)) = securityAlerts st"
  by (induction ticks arbitrary: p k st) (simp_all add: Let_def)

lemma startE91Protocol_fields [simp]:
  "anomalyScore (snd (startE91Protocol ticks rnd st)) = anomalyScore st"
  "isUnderAttack (snd (startE91Protocol ticks rnd st)) = isUnderAttack st"
  "monitoringActive (snd (startE91Protocol ticks rnd st)) = monitoringActive st"
  "qberChart (snd (startE91Protocol ticks rnd st)) = qberChart st"
  "securityAlerts (snd (startE91Protocol ticks rnd st)) = securityAlerts st"
  by (simp_all add: startE91Protocol_def e91Interval_fields)

lemma resetMonitoring_fields [simp]:
  "anomalyScore (resetMonitoring rnd st) = 1 / 10"
  "isUnderAttack (resetMonitoring rnd st) = False"
  "monitoringActive (resetMonitoring rnd st) = False"
  "securityAlerts (resetMonitoring rnd st) = []"
  by (simp_all add: resetMonitoring_def Let_def split: option.split)

lemma resetCompleteDemo_fields [simp]:
  "anomalyScore (resetCompleteDemo rnd st) = 1 / 10"
  "isUnderAttack (resetCompleteDemo rnd st) = False"
  "securityAlerts (resetCompleteDemo rnd st) = []"
  by (simp_all add: resetCompleteDemo_def Let_def split: option.split)

lemma triggerAnomaly_fields [simp]:
  "anomalyScore (triggerAnomaly ts st) = 25 / 10"
  "isUnderAttack (triggerAnomaly ts st) = True"
  "monitoringActive (triggerAnomaly ts st) = monitoringActive st"
  "qberChart (triggerAnomaly ts st) = qberChart st"
  by (simp_all add: triggerAnomaly_def)

lemma simulateEavesdropping_fields [simp]:
  "anomalyScore (simulateEavesdropping st) = 25 / 10"
  "isUnderAttack (simulateEavesdropping st) = True"
  "monitoringActive (simulateEavesdropping st) = monitoringActive st"
  "qberChart (simulateEavesdropping st) = qberChart st"
  "securityAlerts (simulateEavesdropping st) = securityAlerts st"
  by (simp_all add: simulateEavesdropping_def Let_def)

lemma selectTab_fields [simp]:
  "anomalyScore (selectTab tab rnd st) = anomalyScore st"
  "isUnderAttack (selectTab tab rnd st) = isUnderAttack st"
  "monitoringActive (selectTab tab rnd st) = monitoringActive st"
  "securityAlerts (selectTab tab rnd st) = securityAlerts st"
  by (simp_all add: selectTab_def Let_def)

lemma startAIMonitoring_fields [simp]:
  "anomalyScore (startAIMonitoring ts st) = anomalyScore st"
  "isUnderAttack (startAIMonitoring ts st) = isUnderAttack st"
  "monitoringActive (startAIMonitoring ts st) = True"
  "qberChart (startAIMonitoring ts st) = qberChart st"
  by (simp_all add: startAIMonitoring_def)

lemma updateQBERChart_closed:
  "qberChart st = None \<Longrightarrow> updateQBERChart r ts st = st"
  "\<not> monitoringActive st \<Longrightarrow> updateQBERChart r ts st = st"
  by (simp_all add: updateQBERChart_def split: option.split)

lemma updateQBERChart_open:
  assumes "qberChart st = Some c" and "monitoringActive st"
  shows "anomalyScore (updateQBERChart v ts st) =
           (if v > 11 / 100 then min 3 (anomalyScore st + 3 / 10)
            else max (1 / 10) (anomalyScore st - 1 / 10))"
    and "isUnderAttack (updateQBERChart v ts st) = isUnderAttack st"
    and "securityAlerts (updateQBERChart v ts st) =
           (if v > 11 / 100
            then take 5 (\<lparr>alertClass = ''alert alert-warning'', alertTime = ts,
                          alertMessage = ''Elevated QBER detected: '' @ toFixed 3 v\<rparr>
                         # securityAlerts st)
            else securityAlerts st)"
  using assms
  by (simp_all add: updateQBERChart_def Let_def securityAlerts_addSecurityAlert)

lemma updateQBERChart_score_bounds:
  assumes "1 / 10 \<le> anomalyScore st" and "anomalyScore st \<le> 3"
  shows "1 / 10 \<le> anomalyScore (updateQBERChart r ts st) \<and> anomalyScore (updateQBERChart r ts st) \<le> 3"
proof (cases "qberChart st")
  case None
  then show ?thesis using assms by (simp add: updateQBERChart_closed)
next
  case (Some c)
  show ?thesis
  proof (cases "monitoringActive st")
    case True
    then show ?thesis using Some assms by (auto simp: updateQBERChart_open(1) min_def max_def)
  next
    case False
    then show ?thesis using assms by (simp add: updateQBERChart_closed)
  qed
qed

lemma updateQBERChart_alerts_length:
  assumes "length (securityAlerts st) \<le> 5"
  shows "length (securityAlerts (updateQBERChart r ts st)) \<le> 5"
proof (cases "qberChart st")
  case None
  then show ?thesis using assms by (simp add: updateQBERChart_closed)
next
  case (Some c)
  show ?thesis
  proof (cases "monitoringActive st")
    case True
    then show ?thesis using Some assms by (simp add: updateQBERChart_open(3))
  next
    case False
    then show ?thesis using assms by (simp add: updateQBERChart_closed)
  qed
qed

lemma handle_score_bounds:
  assumes "1 / 10 \<le> anomalyScore st" and "anomalyScore st \<le> 3"
  shows "1 / 10 \<le> anomalyScore (handle e st) \<and> anomalyScore (handle e st) \<le> 3"
proof (cases e)
  case (QBERTick r ts)
  then show ?thesis using updateQBERChart_score_bounds [OF assms] by simp
qed (use assms in simp_all)

lemma handle_alerts_length:
  assumes "length (securityAlerts st) \<le> 5"
  shows "length (securityAlerts (handle e st)) \<le> 5"
  using assms
  by (cases e)
    (simp_all add: updateQBERChart_alerts_length startAIMonitoring_def triggerAnomaly_def
      securityAlerts_addSecurityAlert)

lemma run_score_bounds:
  assumes "1 / 10 \<le> anomalyScore st" and "anomalyScore st \<le> 3"
  shows "1 / 10 \<le> anomalyScore (run events st) \<and> anomalyScore (run events st) \<le> 3"
  using assms
proof (induction events arbitrary: st)
  case Nil
  then show ?case by (simp add: run_def)
next
  case (Cons e events)
  have "run (e # events) st = run events (handle e st)" by (simp add: run_def)
  then show ?case using Cons.IH handle_score_bounds [OF Cons.prems] by simp
qed

lemma run_alerts_length:
  assumes "length (securityAlerts st) \<le> 5"
  shows "length (securityAlerts (run events st)) \<le> 5"
  using assms
proof (induction events arbitrary: st)
  case Nil
  then show ?case by (simp add: run_def)
next
  case (Cons e events)
  have "run (e # events) st = run events (handle e st)" by (simp add: run_def)
  then show ?case using Cons.IH handle_alerts_length [OF Cons.prems] by simp
qed


lemma digit_char_value:
  assumes "d < 10"
  shows "digit_value (digit_char d) = d"
proof -
  have "d = 0 \<or> d = 1 \<or> d = 2 \<or> d = 3 \<or> d = 4 \<or> d = 5 \<or> d = 6 \<or> d = 7 \<or> d = 8 \<or> d = 9"
    using assms by presburger
  then show ?thesis
    by (elim disjE) (simp_all add: digit_char_def digit_value_def)
qed

lemma digit_char_in: "digit_char d \<in> set ''0123456789''"
proof -
  have "d mod 10 < length ''0123456789''" by simp
  then show ?thesis unfolding digit_char_def by (rule nth_mem)
qed

lemma digits_value_append:
  "digits_value (cs @ [c]) = 10 * digits_value cs + digit_value c"
  by (simp add: digits_value_def)

lemma digits_value_digits: "digits_value (digits n) = n"
proof (induction n rule: digits.induct)
  case (1 n)
  show ?case
  proof (cases "n < 10")
    case True
    then show ?thesis
      by (simp add: digits.simps [of n] digits_value_def digit_char_value)
  next
    case False
    then have "digits_value (digits n) = 10 * (n div 10) + digit_value (digit_char (n mod 10))"
      using "1.IH" by (simp add: digits.simps [of n] digits_value_append)
    also have "\<dots> = n"
      by (simp add: digit_char_value)
    finally show ?thesis .
  qed
qed

lemma digits_chars: "set (digits n) \<subseteq> set ''0123456789''"
proof (induction n rule: digits.induct)
  case (1 n)
  show ?case
  proof (cases "n < 10")
    case True
    then show ?thesis
      using digit_char_in [of n] by (simp add: digits.simps [of n])
  next
    case False
    then show ?thesis
      using "1.IH" digit_char_in [of "n mod 10"] by (simp add: digits.simps [of n])
  qed
qed

lemma digits_value_zeros: "digits_value (replicate k CHR ''0'' @ cs) = digits_value cs"
proof -
  have "foldl (\<lambda>a c. 10 * a + digit_value c) 0 (replicate k CHR ''0'') = 0"
    by (induction k) (simp_all add: digit_value_def)
  then show ?thesis by (simp add: digits_value_def)
qed

lemma toFixed_shape:
  assumes "0 < f" and "0 \<le> x"
  shows "\<exists>whole frac. toFixed f x = whole @ ''.'' @ frac \<and> whole \<noteq> [] \<and> length frac = f \<and>
           set (whole @ frac) \<subseteq> set ''0123456789'' \<and>
           digits_value (whole @ frac) = nat \<lfloor>x * 10 ^ f + 1 / 2\<rfloor>"
proof -
  define n where "n = nat \<lfloor>x * 10 ^ f + 1 / 2\<rfloor>"
  define m where "m = replicate (f + 1 - length (digits n)) CHR ''0'' @ digits n"
  define whole where "whole = take (length m - f) m"
  define frac where "frac = drop (length m - f) m"
  have len: "f + 1 \<le> length m" by (simp add: m_def)
  have split: "whole @ frac = m" by (simp add: whole_def frac_def)
  have "toFixed f x = whole @ ''.'' @ frac"
    using assms by (simp add: toFixed_def Let_def n_def m_def whole_def frac_def)
  moreover have "whole \<noteq> []" using len by (auto simp: whole_def)
  moreover have "length frac = f" using len by (simp add: frac_def)
  moreover have "set (whole @ frac) \<subseteq> set ''0123456789''"
  proof -
    have "set m \<subseteq> set ''0123456789''"
      using digits_chars [of n] by (auto simp: m_def)
    then show ?thesis by (simp only: split)
  qed
  moreover have "digits_value (whole @ frac) = n"
    by (simp only: split) (simp add: m_def digits_value_zeros digits_value_digits)
  ultimately show ?thesis unfolding n_def by blast
qed

subsection \<open>The concrete states\<close>

lemma monitoredDemo_fields:
  "qberChart monitoredDemo \<noteq> None" "monitoringActive monitoredDemo"
  "\<not> isUnderAttack monitoredDemo" "anomalyScore monitoredDemo = 1 / 10"
  by (simp_all add: monitoredDemo_def selectTab_def newDemo_def blankPage_def Let_def
      initializeQBERChart_def)

lemma attackedDemo_fields:
  "qberChart attackedDemo \<noteq> None" "monitoringActive attackedDemo"
  "isUnderAttack attackedDemo" "anomalyScore attackedDemo = 25 / 10"
  by (simp_all add: attackedDemo_def monitoredDemo_fields)

lemma idleAttackedDemo_fields:
  "\<not> monitoringActive idleAttackedDemo" "isUnderAttack idleAttackedDemo"
  "anomalyScore idleAttackedDemo = 25 / 10"
  by (simp_all add: idleAttackedDemo_def)

lemma monitoredDemo_alerts:
  "securityAlerts monitoredDemo =
     [\<lparr>alertClass = ''alert alert-success'', alertTime = ''09:00:00'',
       alertMessage = ''AI monitoring system activated''\<rparr>]"
  by (simp add: monitoredDemo_def startAIMonitoring_def securityAlerts_addSecurityAlert
      newDemo_def blankPage_def)

lemma attackedDemo_alerts:
  "securityAlerts attackedDemo =
     [\<lparr>alertClass = ''alert alert-error'', alertTime = ''09:00:05'',
       alertMessage = ''CRITICAL: Anomaly detected - possible eavesdropping attempt!''\<rparr>,
      \<lparr>alertClass = ''alert alert-success'', alertTime = ''09:00:00'',
       alertMessage = ''AI monitoring system activated''\<rparr>]"
  by (simp add: attackedDemo_def triggerAnomaly_def securityAlerts_addSecurityAlert
      monitoredDemo_alerts)

lemma attackSample_facts:
  "attackSample > 11 / 100" "toFixed 3 attackSample = ''0.262''"
  by (simp add: attackSample_def) code_simp

lemma calmSample_facts: "calmSample \<le> 11 / 100"
  by (simp add: calmSample_def)

subsection \<open>The key-exchange interval\<close>


lemma e91Interval_key:
  assumes "fst (e91Interval ticks rnd p k st)"
  shows "quantumKey (snd (e91Interval ticks rnd p k st)) =
           generateQuantumKey rnd (shared_key_length normal_operation)"
  using assms
proof (induction ticks arbitrary: p k st)
  case Nil
  then show ?case by simp
next
  case (Cons t ticks)
  define p' where "p' = p + (progressDraw t * 15 + 5)"
  define k' where "k' = (if coinDraw t > 1 / 2 then k @ number_text \<lfloor>bitDraw t * 2\<rfloor> else k)"
  define st2 where
    "st2 = st\<lparr>keyProgressWidth := min p' 100,
               quantumKey := (if k' = [] then ''Generating...'' else k')\<rparr>"
  have unfold: "e91Interval (t # ticks) rnd p k st =
      (if p' \<ge> 100
       then (True, st2\<lparr>quantumKey := generateQuantumKey rnd (shared_key_length normal_operation)\<rparr>)
       else e91Interval ticks rnd p' k' st2)"
    by (simp add: Let_def p'_def k'_def st2_def)
  show ?case
  proof (cases "100 \<le> p'")
    case True
    then show ?thesis by (simp only: unfold) simp
  next
    case False
    then have "fst (e91Interval ticks rnd p' k' st2)"
      using Cons.prems by (simp only: unfold) simp
    then have "quantumKey (snd (e91Interval ticks rnd p' k' st2)) =
        generateQuantumKey rnd (shared_key_length normal_operation)"
      by (rule Cons.IH)
    then show ?thesis using False by (simp only: unfold) simp
  qed
qed

lemma number_text_bit:
  fixes r :: real
  assumes "0 \<le> r" and "r < 1"
  shows "number_text \<lfloor>r * 2\<rfloor> = ''0'' \<or> number_text \<lfloor>r * 2\<rfloor> = ''1''"
proof -
  have "0 \<le> \<lfloor>r * 2\<rfloor>" using assms(1) by simp
  moreover have "\<lfloor>r * 2\<rfloor> < 2" using assms(2) by (simp add: floor_less_iff)
  ultimately have "\<lfloor>r * 2\<rfloor> = 0 \<or> \<lfloor>r * 2\<rfloor> = 1" by linarith
  moreover have "number_text 0 = ''0''" by code_simp
  moreover have "number_text 1 = ''1''" by code_simp
  ultimately show ?thesis by (elim disjE) simp_all
qed

lemma generateQuantumKey_bits:
  assumes "\<forall>i<n. 0 \<le> rnd i \<and> rnd i < 1"
  shows "length (generateQuantumKey rnd n) = n \<and>
         set (generateQuantumKey rnd n) \<subseteq> {CHR ''0'', CHR ''1''}"
  using assms
proof (induction n)
  case 0
  then show ?case by (simp add: generateQuantumKey_def)
next
  case (Suc n)
  have split: "generateQuantumKey rnd (Suc n) = generateQuantumKey rnd n @ number_text \<lfloor>rnd n * 2\<rfloor>"
    by (simp add: generateQuantumKey_def)
  have "number_text \<lfloor>rnd n * 2\<rfloor> = ''0'' \<or> number_text \<lfloor>rnd n * 2\<rfloor> = ''1''"
    using Suc.prems by (simp add: number_text_bit)
  moreover have "length (generateQuantumKey rnd n) = n \<and>
      set (generateQuantumKey rnd n) \<subseteq> {CHR ''0'', CHR ''1''}"
    using Suc.IH Suc.prems by simp
  ultimately show ?case by (auto simp: split)
qed

subsection \<open>The table and the thresholds\<close>

text \<open>
  The table \<open>ai_detection\<close> pairs the score 0.8 with its third recommendation, while
  the thresholds of \<open>updateAIDisplay\<close> send 0.8 to the second entry.
\<close>

lemma recommendationFor_calibration_point:
  "anomaly_scores ! 2 = 8 / 10 \<and>
   recommendations ! 2 = ''Monitor closely - Elevated error rate detected'' \<and>
   recommendationFor (anomaly_scores ! 2) = ''Continue key exchange - Normal operation''"
  by (simp add: recommendationFor_def recommendationIndex_def recommendations_def
      anomaly_scores_def)

section \<open>The claims\<close>

text \<open>
  Claim C1, with the guard of \<open>updateQBERChart\<close> as a hypothesis. While a chart exists
  and monitoring is active, for every current score and every sample: a sample above 0.11
  sets the score to the minimum of 3 and the old score plus 0.3, so the result never
  exceeds 3; a sample of at most 0.11 sets it to the maximum of 0.1 and the old score
  minus 0.1, so the result never goes below 0.1.
\<close>

theorem updateQBERChart_anomalyScore:
  assumes "qberChart st \<noteq> None" and "monitoringActive st"
  shows "(sample > 11 / 100 \<longrightarrow>
            anomalyScore (updateQBERChart sample ts st) = min 3 (anomalyScore st + 3 / 10) \<and>
            anomalyScore (updateQBERChart sample ts st) \<le> 3) \<and>
         (sample \<le> 11 / 100 \<longrightarrow>
            anomalyScore (updateQBERChart sample ts st) = max (1 / 10) (anomalyScore st - 1 / 10) \<and>
            1 / 10 \<le> anomalyScore (updateQBERChart sample ts st))"
proof -
  from assms(1) obtain c where "qberChart st = Some c" by blast
  from updateQBERChart_open(1) [OF this assms(2)] show ?thesis by auto
qed

theorem updateQBERChart_anomalyScore_witness:
  "qberChart attackedDemo \<noteq> None \<and> monitoringActive attackedDemo \<and>
   attackSample > 11 / 100 \<and> anomalyScore attackedDemo = 25 / 10 \<and>
   anomalyScore (updateQBERChart attackSample ''09:00:07'' attackedDemo) = 28 / 10 \<and>
   calmSample \<le> 11 / 100 \<and> anomalyScore monitoredDemo = 1 / 10 \<and>
   anomalyScore (updateQBERChart calmSample ''09:00:07'' monitoredDemo) = 1 / 10"
proof -
  note high = attackSample_facts(1) and low = calmSample_facts
  from updateQBERChart_anomalyScore [OF attackedDemo_fields(1,2), of attackSample "''09:00:07''"] high
  have "anomalyScore (updateQBERChart attackSample ''09:00:07'' attackedDemo) = 28 / 10"
    by (simp add: attackedDemo_fields)
  moreover
  from updateQBERChart_anomalyScore [OF monitoredDemo_fields(1,2), of calmSample "''09:00:07''"] low
  have "anomalyScore (updateQBERChart calmSample ''09:00:07'' monitoredDemo) = 1 / 10"
    by (simp add: monitoredDemo_fields)
  ultimately show ?thesis
    using high low attackedDemo_fields monitoredDemo_fields by simp
qed

theorem updateQBERChart_idle_counterexample:
  "attackSample > 11 / 100 \<and> anomalyScore idleAttackedDemo = 25 / 10 \<and>
   anomalyScore (updateQBERChart attackSample ''09:00:07'' idleAttackedDemo) = 25 / 10 \<and>
   anomalyScore (updateQBERChart attackSample ''09:00:07'' idleAttackedDemo)
     \<noteq> min 3 (anomalyScore idleAttackedDemo + 3 / 10)"
  using attackSample_facts(1)
  by (simp add: updateQBERChart_closed(2) idleAttackedDemo_fields)

text \<open>
  Claim C2. From the state that \<open>resetMonitoring\<close> leaves, whatever the state before,
  the score stays between 0.1 and 3 after any finite sequence of events.
\<close>

theorem anomalyScore_in_range:
  "1 / 10 \<le> anomalyScore (run events (resetMonitoring rnd st)) \<and>
   anomalyScore (run events (resetMonitoring rnd st)) \<le> 3"
  by (rule run_score_bounds) simp_all

text \<open>
  Claim C3, for the brackets the thresholds of \<open>updateAIDisplay\<close> give. The score 0.1
  yields the advice to continue and 2.5 the advice to abort; a score of at most 0.5 yields
  "Continue key exchange - Normal operation" (paired with LOW in the table), a score above
  1 and at most 2 yields "Monitor closely - Elevated error rate detected" (MEDIUM), a
  score above 2 yields "Abort key exchange - Possible eavesdropping detected" (HIGH); and
  the recommendation shown is the one of the current score. The comparisons are strict,
  so 2 itself still asks to monitor. Nothing is said here of the scores above 0.5 and up
  to 1.
\<close>

theorem recommendationFor_brackets:
  "recommendationFor (1 / 10) = ''Continue key exchange - Normal operation'' \<and>
   recommendationFor (25 / 10) = ''Abort key exchange - Possible eavesdropping detected'' \<and>
   (score \<le> 1 / 2 \<longrightarrow>
      recommendationFor score = ''Continue key exchange - Normal operation'' \<and>
      threat_levels ! recommendationIndex score = ''LOW'') \<and>
   (1 < score \<and> score \<le> 2 \<longrightarrow>
      recommendationFor score = ''Monitor closely - Elevated error rate detected'' \<and>
      threat_levels ! recommendationIndex score = ''MEDIUM'') \<and>
   (2 < score \<longrightarrow>
      recommendationFor score = ''Abort key exchange - Possible eavesdropping detected'' \<and>
      threat_levels ! recommendationIndex score = ''HIGH'') \<and>
   aiRecommendation (updateAIDisplay st) = recommendationFor (anomalyScore st)"
  by (simp add: recommendationFor_def recommendationIndex_def recommendations_def
      threat_levels_def)

theorem recommendationFor_brackets_witness:
  "(3 / 10 :: real) \<le> 1 / 2 \<and>
   recommendationFor (3 / 10) = ''Continue key exchange - Normal operation'' \<and>
   (1 :: real) < 3 / 2 \<and> (3 / 2 :: real) \<le> 2 \<and>
   recommendationFor (3 / 2) = ''Monitor closely - Elevated error rate detected'' \<and>
   (2 :: real) < 3 \<and>
   recommendationFor 3 = ''Abort key exchange - Possible eavesdropping detected'' \<and>
   aiRecommendation (updateAIDisplay attackedDemo) =
     ''Abort key exchange - Possible eavesdropping detected''"
  using recommendationFor_brackets [of "3 / 10" attackedDemo]
    recommendationFor_brackets [of "3 / 2" attackedDemo]
    recommendationFor_brackets [of 3 attackedDemo]
  by (simp add: attackedDemo_fields)

theorem recommendationFor_boundary_counterexample:
  "recommendationFor 2 = ''Monitor closely - Elevated error rate detected'' \<and>
   recommendationFor 2 \<noteq> ''Abort key exchange - Possible eavesdropping detected''"
  by (simp add: recommendationFor_def recommendationIndex_def recommendations_def)

text \<open>
  Claim C4, evaluated where the claim and the code part. After the eavesdropping
  simulation the instance is under attack, and the profile \<open>under_attack\<close> has a shared
  key length of 16; the key exchange started then completes with a key of 19 bits, the
  length of \<open>normal_operation\<close>, and leaves \<open>isUnderAttack\<close> as it was.
\<close>

theorem startE91Protocol_under_attack:
  "isUnderAttack eavesdroppedDemo \<and>
   shared_key_length under_attack = 16 \<and>
   fst (startE91Protocol steadyTicks alternatingDraws eavesdroppedDemo) \<and>
   quantumKey (snd (startE91Protocol steadyTicks alternatingDraws eavesdroppedDemo)) =
     ''0101010101010101010'' \<and>
   length (quantumKey (snd (startE91Protocol steadyTicks alternatingDraws eavesdroppedDemo))) = 19 \<and>
   isUnderAttack (snd (startE91Protocol steadyTicks alternatingDraws eavesdroppedDemo))"
  by code_simp




text \<open>
  Claim C6. Whatever the state before, \<open>triggerAnomaly\<close> leaves the score at 2.5 and
  the attack flag set, and so does every further call of it (\<open>tss\<close> are the clock
  readings of the further calls).
\<close>

theorem triggerAnomaly_forces:
  "anomalyScore (triggerAnomaly ts st) = 25 / 10 \<and> isUnderAttack (triggerAnomaly ts st) \<and>
   anomalyScore (foldr triggerAnomaly tss (triggerAnomaly ts st)) = 25 / 10 \<and>
   isUnderAttack (foldr triggerAnomaly tss (triggerAnomaly ts st))"
  by (cases tss) simp_all

text \<open>
  Claim C7. Whatever the state before, \<open>resetMonitoring\<close> leaves the attack flag
  cleared, the score at 0.1 and the alert list empty; and a second reset yields the state
  that one reset yields (with the draws of the last reset, which fill the new chart).
\<close>

theorem resetMonitoring_defaults:
  "isUnderAttack (resetMonitoring rnd st) = False \<and>
   anomalyScore (resetMonitoring rnd st) = 1 / 10 \<and>
   securityAlerts (resetMonitoring rnd st) = [] \<and>
   resetMonitoring rnd (resetMonitoring rnd' st) = resetMonitoring rnd st"
proof -
  have "resetMonitoring rnd (resetMonitoring rnd' st) = resetMonitoring rnd st"
    by (cases "qberChart st")
      (simp_all add: resetMonitoring_def Let_def initializeQBERChart_def updateAIDisplay_def
        updateE91Display_def)
  then show ?thesis by simp
qed

text \<open>
  Claim C8. \<open>addSecurityAlert\<close> puts the new alert first and keeps the four newest of
  the old ones after it, so the oldest are the ones dropped and at most five remain; and
  from a reset on, the list never has more than five entries, whatever events follow.
\<close>

theorem securityAlerts_bounded:
  "securityAlerts (addSecurityAlert ts msg ty st) =
     \<lparr>alertClass = ''alert alert-'' @ ty, alertTime = ts, alertMessage = msg\<rparr>
     # take 4 (securityAlerts st) \<and>
   length (securityAlerts (addSecurityAlert ts msg ty st)) \<le> 5 \<and>
   length (securityAlerts (run events (resetMonitoring rnd st'))) \<le> 5"
proof -
  have "length (securityAlerts (run events (resetMonitoring rnd st'))) \<le> 5"
    by (rule run_alerts_length) simp
  then show ?thesis by (simp add: securityAlerts_addSecurityAlert)
qed

text \<open>
  Claim C9, with the guard of \<open>updateQBERChart\<close> as a hypothesis. While a chart exists
  and monitoring is active, for every sample: a sample above 0.11 puts one alert of class
  \<open>alert-warning\<close> in front of the list (the four newest old ones stay), whose message
  is "Elevated QBER detected: " followed by the sample with exactly three digits after
  the point, and these digits read back as the sample times 1000, rounded to the nearest
  integer; a sample of at most 0.11 leaves the list as it is.
\<close>

theorem updateQBERChart_alert:
  assumes "qberChart st \<noteq> None" and "monitoringActive st"
  shows "(sample > 11 / 100 \<longrightarrow>
            securityAlerts (updateQBERChart sample ts st) =
              \<lparr>alertClass = ''alert alert-warning'', alertTime = ts,
               alertMessage = ''Elevated QBER detected: '' @ toFixed 3 sample\<rparr>
              # take 4 (securityAlerts st) \<and>
            (\<exists>whole frac. toFixed 3 sample = whole @ ''.'' @ frac \<and> whole \<noteq> [] \<and>
               length frac = 3 \<and> set (whole @ frac) \<subseteq> set ''0123456789'' \<and>
               digits_value (whole @ frac) = nat \<lfloor>sample * 1000 + 1 / 2\<rfloor>)) \<and>
         (sample \<le> 11 / 100 \<longrightarrow>
            securityAlerts (updateQBERChart sample ts st) = securityAlerts st)"
proof -
  from assms(1) obtain c where c: "qberChart st = Some c" by blast
  have shape: "\<exists>whole frac. toFixed 3 sample = whole @ ''.'' @ frac \<and> whole \<noteq> [] \<and>
      length frac = 3 \<and> set (whole @ frac) \<subseteq> set ''0123456789'' \<and>
      digits_value (whole @ frac) = nat \<lfloor>sample * 1000 + 1 / 2\<rfloor>"
    if "sample > 11 / 100"
  proof -
    have "0 \<le> sample" using that by simp
    from toFixed_shape [of 3, OF _ this] show ?thesis by simp
  qed
  show ?thesis
    using updateQBERChart_open(3) [OF c assms(2), of sample ts] shape by auto
qed

theorem updateQBERChart_alert_witness:
  "qberChart attackedDemo \<noteq> None \<and> monitoringActive attackedDemo \<and>
   attackSample > 11 / 100 \<and>
   securityAlerts (updateQBERChart attackSample ''09:00:07'' attackedDemo) =
     [\<lparr>alertClass = ''alert alert-warning'', alertTime = ''09:00:07'',
       alertMessage = ''Elevated QBER detected: 0.262''\<rparr>,
      \<lparr>alertClass = ''alert alert-error'', alertTime = ''09:00:05'',
       alertMessage = ''CRITICAL: Anomaly detected - possible eavesdropping attempt!''\<rparr>,
      \<lparr>alertClass = ''alert alert-success'', alertTime = ''09:00:00'',
       alertMessage = ''AI monitoring system activated''\<rparr>] \<and>
   calmSample \<le> 11 / 100 \<and>
   securityAlerts (updateQBERChart calmSample ''09:00:07'' monitoredDemo) =
     securityAlerts monitoredDemo"
proof -
  note high = attackSample_facts(1) and low = calmSample_facts
  from updateQBERChart_alert [OF attackedDemo_fields(1,2), of attackSample "''09:00:07''"] high
  have "securityAlerts (updateQBERChart attackSample ''09:00:07'' attackedDemo) =
      \<lparr>alertClass = ''alert alert-warning'', alertTime = ''09:00:07'',
       alertMessage = ''Elevated QBER detected: '' @ toFixed 3 attackSample\<rparr>
      # take 4 (securityAlerts attackedDemo)"
    by blast
  moreover
  from updateQBERChart_alert [OF monitoredDemo_fields(1,2), of calmSample "''09:00:07''"] low
  have "securityAlerts (updateQBERChart calmSample ''09:00:07'' monitoredDemo) =
      securityAlerts monitoredDemo"
    by simp
  ultimately show ?thesis
    using high low attackedDemo_fields(1,2)
    by (simp add: attackSample_facts(2) attackedDemo_alerts)
qed

theorem updateQBERChart_idle_no_alert_counterexample:
  "attackSample > 11 / 100 \<and>
   securityAlerts (updateQBERChart attackSample ''09:00:07'' idleAttackedDemo) =
     securityAlerts idleAttackedDemo \<and>
   length (securityAlerts (updateQBERChart attackSample ''09:00:07'' idleAttackedDemo)) = 1"
proof -
  have "securityAlerts idleAttackedDemo =
      [\<lparr>alertClass = ''alert alert-error'', alertTime = ''09:00:05'',
        alertMessage = ''CRITICAL: Anomaly detected - possible eavesdropping attempt!''\<rparr>]"
    by (simp add: idleAttackedDemo_def triggerAnomaly_def securityAlerts_addSecurityAlert)
  then show ?thesis
    using attackSample_facts(1)
    by (simp add: updateQBERChart_closed(2) idleAttackedDemo_fields)
qed

text \<open>
  Claim C10. When monitoring is not active, \<open>updateQBERChart\<close> returns the state it
  was given, whatever the sample and the clock: the score, the attack flag, the alert
  list and everything else are unchanged. Monitoring is not active in a new instance, and
  not after \<open>resetMonitoring\<close>.
\<close>

theorem updateQBERChart_dropped_when_idle:
  "(\<not> monitoringActive st \<longrightarrow> updateQBERChart sample ts st = st) \<and>
   \<not> monitoringActive (newDemo page) \<and>
   \<not> monitoringActive (resetMonitoring rnd st')"
  by (simp add: updateQBERChart_closed(2) newDemo_def)

theorem updateQBERChart_dropped_when_idle_witness:
  "\<not> monitoringActive idleAttackedDemo \<and>
   updateQBERChart attackSample ''09:00:07'' idleAttackedDemo = idleAttackedDemo \<and>
   \<not> monitoringActive (newDemo blankPage) \<and>
   \<not> monitoringActive (resetMonitoring halfDraws attackedDemo)"
  using updateQBERChart_dropped_when_idle [of idleAttackedDemo attackSample "''09:00:07''" blankPage halfDraws attackedDemo]
    idleAttackedDemo_fields(1)
  by simp

end
